theory Spec2Isabelle
  imports Main "HOL-Library.AList"
begin

section \<open>Python values and exceptions\<close>

text \<open>
  The part of Python's value universe that \<^verbatim>\<open>django_hstore/hstore.py\<close> inspects.
  A \<^verbatim>\<open>dict\<close> is an association list from its string keys to values (the keys of a
  dictionary are distinct, see \<open>wf_dict\<close>); \<^verbatim>\<open>list\<close> and \<^verbatim>\<open>tuple\<close> keep their
  elements in order; \<^verbatim>\<open>datetime.date\<close> is a year, a month and a day; \<open>PObj\<close> is any
  other object (a model instance, say), identified by a number.
\<close>

record date =
  year :: nat
  month :: nat
  day :: nat

datatype pyval =
    PNone
  | PBool bool
  | PInt int
  | PStr string
  | PDate date
  | PList "pyval list"
  | PTuple "pyval list"
  | PDict "(string \<times> pyval) list"
  | PObj nat

text \<open>
  The exceptions the module raises itself (\<^verbatim>\<open>LookupError\<close>, \<^verbatim>\<open>ValueError\<close>, each with its
  message) and the ones Python raises on its behalf: \<^verbatim>\<open>TypeError\<close> (\<^verbatim>\<open>len(None)\<close>, a
  format string with the wrong number of arguments), \<^verbatim>\<open>IndexError\<close> (\<^verbatim>\<open>params[0]\<close> on an
  empty list) and \<^verbatim>\<open>AttributeError\<close> (a method or attribute that the object lacks).
\<close>

datatype error =
    LookupError string
  | ValueError string
  | TypeError
  | IndexError
  | AttributeError

text \<open>Sequencing of computations that may raise: the first exception wins.\<close>

definition andThen :: "error + 'a \<Rightarrow> ('a \<Rightarrow> error + 'b) \<Rightarrow> error + 'b" where
  "andThen r f = (case r of Inl e \<Rightarrow> Inl e | Inr x \<Rightarrow> f x)"

text \<open>\<^verbatim>\<open>isinstance(v, dict)\<close>, \<^verbatim>\<open>isinstance(v, (list, tuple))\<close>,
  \<^verbatim>\<open>isinstance(v, basestring)\<close> and \<^verbatim>\<open>isinstance(v, date)\<close>.\<close>

fun is_dict :: "pyval \<Rightarrow> bool" where
  "is_dict (PDict d) = True"
| "is_dict v = False"

fun is_list_or_tuple :: "pyval \<Rightarrow> bool" where
  "is_list_or_tuple (PList xs) = True"
| "is_list_or_tuple (PTuple xs) = True"
| "is_list_or_tuple v = False"

fun is_basestring :: "pyval \<Rightarrow> bool" where
  "is_basestring (PStr s) = True"
| "is_basestring v = False"

fun is_date :: "pyval \<Rightarrow> bool" where
  "is_date (PDate d) = True"
| "is_date v = False"

text \<open>Python's truth value of an object, as \<^verbatim>\<open>if v:\<close> and \<^verbatim>\<open>v or w\<close> test it.\<close>

fun truthy :: "pyval \<Rightarrow> bool" where
  "truthy PNone = False"
| "truthy (PBool b) = b"
| "truthy (PInt i) = (i \<noteq> 0)"
| "truthy (PStr s) = (s \<noteq> [])"
| "truthy (PDate d) = True"
| "truthy (PList xs) = (xs \<noteq> [])"
| "truthy (PTuple xs) = (xs \<noteq> [])"
| "truthy (PDict d) = (d \<noteq> [])"
| "truthy (PObj n) = True"

section \<open>String formatting\<close>

text \<open>
  Python's \<^verbatim>\<open>template % args\<close> for the two directives the module uses: \<^verbatim>\<open>%s\<close> consumes
  the next argument (always a string here) and \<^verbatim>\<open>%%\<close> is a literal percent sign. Too few
  or too many arguments are a \<^verbatim>\<open>TypeError\<close>, any other directive a \<^verbatim>\<open>ValueError\<close>.
\<close>

definition prepend :: "string \<Rightarrow> error + string \<Rightarrow> error + string" where
  "prepend s r = (case r of Inl e \<Rightarrow> Inl e | Inr t \<Rightarrow> Inr (s @ t))"

fun py_format :: "string \<Rightarrow> string list \<Rightarrow> error + string" where
  "py_format [] [] = Inr []"
| "py_format [] (a # as) = Inl TypeError"
| "py_format (c # cs) as =
     (if c \<noteq> CHR ''%'' then prepend [c] (py_format cs as)
      else (case cs of
              [] \<Rightarrow> Inl (ValueError ''incomplete format'')
            | d # ds \<Rightarrow>
                if d = CHR ''%'' then prepend ''%'' (py_format ds as)
                else if d = CHR ''s'' then
                  (case as of
                     [] \<Rightarrow> Inl TypeError
                   | a # as' \<Rightarrow> prepend a (py_format ds as'))
                else Inl (ValueError ''unsupported format character'')))"

section \<open>HStoreLookup: construction\<close>

text \<open>
  The three field classes whose lookup registry the constructor consults:
  \<^verbatim>\<open>CharField()\<close>, \<^verbatim>\<open>IntegerField()\<close> and \<^verbatim>\<open>DateField()\<close>.
\<close>

datatype field_class = CharField | IntegerField | DateField

text \<open>
  An \<^verbatim>\<open>HStoreLookup\<close> object. The type \<open>'l\<close> is the type of the framework's own lookup
  objects, which the registry hands out. The attribute \<^verbatim>\<open>cast\<close> exists only on a keyed
  lookup: the constructor returns before setting it for \<^verbatim>\<open>exact\<close> and \<^verbatim>\<open>contains\<close>.
\<close>

record 'l HStoreLookup =
  lookup_type :: string
  retval_field :: "field_class option"
  nested_lookup :: "'l option"
  cast :: "string option"

definition nested_not_supported :: string where
  \<open>nested_not_supported = ''The hstore lookup "%s" does not support nested lookups''\<close>

definition nesting_too_deep :: string where
  "nesting_too_deep = ''Lookup nesting too deep for hstore field!''"

definition unknown_nested :: string where
  "unknown_nested = ''Unknown nested lookup!''"

text \<open>
  Lines 39 to 42: \<^verbatim>\<open>self.retval_field.get_lookup(nested_lookups or ['exact'], None)\<close>, and
  the \<^verbatim>\<open>LookupError\<close> when the registry has no such lookup. The registry \<open>get_lookup\<close> is the
  framework's and is a parameter.
\<close>

definition resolve_nested ::
  "(field_class \<Rightarrow> string list \<Rightarrow> 'l option) \<Rightarrow> string \<Rightarrow> string \<Rightarrow> field_class \<Rightarrow>
   string list \<Rightarrow> error + 'l HStoreLookup" where
  "resolve_nested get_lookup ltype cst rfield nested_lookups =
     (case get_lookup rfield (if nested_lookups \<noteq> [] then nested_lookups else [''exact'']) of
        None \<Rightarrow> Inl (LookupError unknown_nested)
      | Some n \<Rightarrow>
          Inr \<lparr>lookup_type = ltype, retval_field = Some rfield, nested_lookup = Some n,
               cast = Some cst\<rparr>)"

text \<open>
  \<^verbatim>\<open>HStoreLookup.__init__(self, lookup_type, nested_lookups=None)\<close>. The argument
  \<open>nested_lookups\<close> is \<open>None\<close> for Python's \<^verbatim>\<open>None\<close> (the default) and \<open>Some toks\<close> for a
  list of lookup names. A raised exception leaves no object: the result is \<open>Inl\<close>.
\<close>

definition HStoreLookup_init ::
  "(field_class \<Rightarrow> string list \<Rightarrow> 'l option) \<Rightarrow> string \<Rightarrow> string list option \<Rightarrow>
   error + 'l HStoreLookup" where
  "HStoreLookup_init get_lookup ltype nested_lookups =
     (if ltype \<in> set [''exact'', ''contains''] then
        (if nested_lookups \<noteq> None \<and> nested_lookups \<noteq> Some [] then
           andThen (py_format nested_not_supported [ltype]) (\<lambda>m. Inl (LookupError m))
         else
           Inr \<lparr>lookup_type = ltype, retval_field = None, nested_lookup = None, cast = None\<rparr>)
      else
        (case nested_lookups of
           None \<Rightarrow> Inl TypeError
         | Some toks \<Rightarrow>
             if length toks > 2 then Inl (LookupError nesting_too_deep)
             else
               (case toks of
                  [] \<Rightarrow> resolve_nested get_lookup ltype ''%s'' CharField toks
                | t # ts \<Rightarrow>
                    if t \<in> set [''asint'', ''asdate''] then
                      (let type_convert = t;
                           toks' = [if length toks = 2 then toks ! 1 else ''exact''];
                           (rfield1, cast1) =
                              (if type_convert = ''asint''
                               then (IntegerField, ''(%s)::INTEGER'')
                               else (CharField, ''%s''));
                           (rfield2, cast2) =
                              (if type_convert = ''asdate''
                               then (DateField, ''(%s)::DATE'')
                               else (rfield1, cast1))
                       in resolve_nested get_lookup ltype cast2 rfield2 toks')
                    else if length toks = 2 then Inl (LookupError nesting_too_deep)
                    else resolve_nested get_lookup ltype ''%s'' CharField toks)))"

text \<open>\<^verbatim>\<open>HStoreField.get_lookup(self, lookup_names, target_field)\<close>:
  \<^verbatim>\<open>HStoreLookup(lookup_names[0], lookup_names[1:])\<close>.\<close>

definition HStoreField_get_lookup ::
  "(field_class \<Rightarrow> string list \<Rightarrow> 'l option) \<Rightarrow> string list \<Rightarrow> error + 'l HStoreLookup" where
  "HStoreField_get_lookup get_lookup lookup_names =
     (case lookup_names of
        [] \<Rightarrow> Inl IndexError
      | n # ns \<Rightarrow> HStoreLookup_init get_lookup n (Some ns))"

section \<open>HStoreLookup: rendering\<close>

text \<open>
  What the module calls but does not define: the methods of the framework's base class
  \<^verbatim>\<open>Lookup\<close>, reached through \<^verbatim>\<open>super(HStoreLookup, self)\<close>, and the methods of the lookup
  objects of type \<open>'l\<close> that the registry returns. The arguments \<^verbatim>\<open>qn\<close>, \<^verbatim>\<open>connection\<close> and
  \<^verbatim>\<open>value_annotation\<close> are only handed on to these methods and are left inside them. A
  left-hand side is an SQL string. The parameters that \<^verbatim>\<open>prepare_lhs\<close> of the base class
  returns are a Python value, since the module treats a list and a tuple differently.
\<close>

record 'l framework =
  Lookup_common_normalize :: "pyval list \<Rightarrow> error + string \<times> pyval list"
  Lookup_prepare_lhs :: "string \<Rightarrow> error + string \<times> pyval"
  Lookup_rhs_format :: "string \<Rightarrow> string"
  Lookup_as_sql :: "string \<Rightarrow> error + string \<times> pyval"
  inner_common_normalize ::
    "'l \<Rightarrow> pyval list \<Rightarrow> field_class option \<Rightarrow> error + string \<times> pyval list"
  inner_prepare_lhs :: "'l \<Rightarrow> string \<Rightarrow> bool \<Rightarrow> error + string \<times> pyval list"
  inner_as_constraint_sql ::
    "'l \<Rightarrow> string \<Rightarrow> string \<Rightarrow> pyval list \<Rightarrow> error + string \<times> pyval list"
  inner_as_sql :: "'l \<Rightarrow> string \<Rightarrow> error + string \<times> pyval list"


text \<open>
  Lines 58 to 61: \<^verbatim>\<open>params.insert(0, self.lookup_type)\<close>, and in the handler of any
  exception \<^verbatim>\<open>params = (self.lookup_type,) + params\<close>. A list takes the insertion; a tuple
  has no \<^verbatim>\<open>insert\<close> and is rebuilt by the handler; for anything else the handler's
  concatenation is a \<^verbatim>\<open>TypeError\<close>.
\<close>

definition insert_lookup_type :: "string \<Rightarrow> pyval \<Rightarrow> error + pyval" where
  "insert_lookup_type key params =
     (case params of
        PList ps \<Rightarrow> Inr (PList (PStr key # ps))
      | PTuple ps \<Rightarrow> Inr (PTuple (PStr key # ps))
      | _ \<Rightarrow> Inl TypeError)"

text \<open>\<^verbatim>\<open>params.extend(inner_params)\<close>: only a list has \<^verbatim>\<open>extend\<close>.\<close>

definition extend_params :: "pyval \<Rightarrow> pyval list \<Rightarrow> error + pyval" where
  "extend_params params inner_params =
     (case params of
        PList ps \<Rightarrow> Inr (PList (ps @ inner_params))
      | _ \<Rightarrow> Inl AttributeError)"

text \<open>\<^verbatim>\<open>prepare_lhs(self, lvalue, qn, connection, lhs_only=False)\<close>.\<close>

definition prepare_lhs ::
  "'l framework \<Rightarrow> 'l HStoreLookup \<Rightarrow> string \<Rightarrow> bool \<Rightarrow> error + string \<times> pyval" where
  "prepare_lhs fw self lvalue lhs_only =
     andThen (Lookup_prepare_lhs fw lvalue) (\<lambda>(lhs_clause, params).
       case nested_lookup self of
         None \<Rightarrow> Inr (lhs_clause, params)
       | Some n \<Rightarrow>
           (case cast self of
              None \<Rightarrow> Inl AttributeError
            | Some cst \<Rightarrow>
                andThen (py_format ''%s -> %%s'' [lhs_clause]) (\<lambda>extraction.
                andThen (py_format cst [extraction]) (\<lambda>lhs_clause1.
                andThen (insert_lookup_type (lookup_type self) params) (\<lambda>params1.
                andThen (inner_prepare_lhs fw n lhs_clause1 lhs_only) (\<lambda>(lhs_clause2, inner_params).
                andThen (extend_params params1 inner_params) (\<lambda>params2.
                Inr (lhs_clause2, params2))))))))"

text \<open>
  \<^verbatim>\<open>as_constraint_sql(self, qn, connection, lhs_clause, value_annotation, rhs_sql, params,
  field)\<close>. The test on line 79 is \<^verbatim>\<open>if params:\<close>, the truth value of the parameter list.
\<close>

definition as_constraint_sql ::
  "'l framework \<Rightarrow> 'l HStoreLookup \<Rightarrow> string \<Rightarrow> string \<Rightarrow> pyval list \<Rightarrow>
   error + string \<times> pyval list" where
  "as_constraint_sql fw self lhs_clause rhs_sql params =
     (let rhs_format = Lookup_rhs_format fw rhs_sql in
      if lookup_type self = ''exact'' then
        (case params of
           [] \<Rightarrow> Inl IndexError
         | p # ps \<Rightarrow>
             if is_dict p then
               andThen (py_format ''%s = %s'' [lhs_clause, rhs_format]) (\<lambda>sql. Inr (sql, params))
             else Inl (ValueError ''Invalid value''))
      else if lookup_type self = ''contains'' then
        (case params of
           [] \<Rightarrow> Inl IndexError
         | p # ps \<Rightarrow>
             if is_dict p then
               andThen (py_format ''%s @> %s'' [lhs_clause, rhs_format]) (\<lambda>sql. Inr (sql, params))
             else if is_list_or_tuple p then
               (if params \<noteq> [] then
                  andThen (py_format ''%s ?& %s'' [lhs_clause, rhs_format])
                    (\<lambda>sql. Inr (sql, params))
                else Inl (ValueError ''invalid value''))
             else if is_basestring p then
               andThen (py_format ''%s ? %s'' [lhs_clause, rhs_format]) (\<lambda>sql. Inr (sql, params))
             else Inl (ValueError ''invalid value''))
      else
        (case nested_lookup self of
           None \<Rightarrow> Inl AttributeError
         | Some n \<Rightarrow> inner_as_constraint_sql fw n lhs_clause rhs_sql params))"

text \<open>\<^verbatim>\<open>as_sql(self, qn, connection, lvalue)\<close>.\<close>

definition as_sql ::
  "'l framework \<Rightarrow> 'l HStoreLookup \<Rightarrow> string \<Rightarrow> error + string \<times> pyval" where
  "as_sql fw self lvalue =
     andThen (prepare_lhs fw self lvalue True) (\<lambda>(lvalue1, params).
       case nested_lookup self of
         Some n \<Rightarrow>
           andThen (inner_as_sql fw n lvalue1) (\<lambda>(inner_sql, inner_params).
           andThen (extend_params params inner_params) (\<lambda>params1.
           Inr (inner_sql, params1)))
       | None \<Rightarrow> Lookup_as_sql fw lvalue1)"

section \<open>The fields\<close>

text \<open>
  \<^verbatim>\<open>HStoreField.get_prep_value(self, value)\<close>. The dictionary is copied, and the loop runs
  over the items of the copy, assigning the formatted text under the key of every date.
  The formatting \<^verbatim>\<open>v.strftime('%Y-%m-%d')\<close> is the standard library's and is the parameter
  \<open>strftime\<close>.
\<close>

fun prep_items ::
  "(date \<Rightarrow> string) \<Rightarrow> (string \<times> pyval) list \<Rightarrow> (string \<times> pyval) list \<Rightarrow>
   (string \<times> pyval) list" where
  "prep_items strftime [] val = val"
| "prep_items strftime ((k, v) # items) val =
     prep_items strftime items
       (case v of PDate d \<Rightarrow> AList.update k (PStr (strftime d)) val | _ \<Rightarrow> val)"

definition get_prep_value :: "(date \<Rightarrow> string) \<Rightarrow> pyval \<Rightarrow> pyval" where
  "get_prep_value strftime val =
     (case val of PDict d \<Rightarrow> PDict (prep_items strftime d d) | _ \<Rightarrow> val)"


text \<open>\<^verbatim>\<open>DictionaryField.to_python(self, value)\<close>: \<^verbatim>\<open>value or {}\<close>.\<close>

definition DictionaryField_to_python :: "pyval \<Rightarrow> pyval" where
  "DictionaryField_to_python val = (if truthy val then val else PDict [])"

text \<open>The keys of a dictionary are distinct.\<close>

definition wf_dict :: "(string \<times> pyval) list \<Rightarrow> bool" where
  "wf_dict d = distinct (map fst d)"

section \<open>ReferencesField\<close>

text \<open>
  A referenced model instance, and the lazily resolved reference that stands for one after
  deserialization: it holds the stored identifier and nothing else.
\<close>

record entity =
  table_name :: string
  primary_key :: string

datatype lazy_reference = LazyReference string

text \<open>
  Modelled from the spec: \<^verbatim>\<open>serialize_references\<close> of \<^verbatim>\<open>django_hstore.util\<close>, which the
  module imports and which is not among the sources. It maps each entity to its stable
  string identifier and \<^verbatim>\<open>None\<close> to the empty string. The identifier of an entity is the
  parameter \<open>identify\<close>.
\<close>

definition serialize_references ::
  "(entity \<Rightarrow> string) \<Rightarrow> (string \<times> entity option) list \<Rightarrow> (string \<times> string) list" where
  "serialize_references identify refs =
     map (\<lambda>(k, v). (k, case v of None \<Rightarrow> [] | Some e \<Rightarrow> identify e)) refs"

text \<open>
  Modelled from the spec: \<^verbatim>\<open>unserialize_references\<close> of \<^verbatim>\<open>django_hstore.util\<close>, not among the
  sources. Each stored string becomes a lazy reference; no entity is loaded.
\<close>

definition unserialize_references :: "(string \<times> string) list \<Rightarrow> (string \<times> lazy_reference) list" where
  "unserialize_references refs = map (\<lambda>(k, s). (k, LazyReference s)) refs"

text \<open>
  Modelled from the spec: \<^verbatim>\<open>acquire_reference\<close> of \<^verbatim>\<open>django_hstore.util\<close>, not among the
  sources. It asks the record-lookup provider \<open>fetch\<close> for the entity that an identifier
  denotes; a missing record is \<open>None\<close>.
\<close>

definition acquire_reference :: "(string \<Rightarrow> entity option) \<Rightarrow> string \<Rightarrow> entity option" where
  "acquire_reference fetch reference = fetch reference"

text \<open>
  The methods of \<^verbatim>\<open>ReferencesField\<close>, lines 181 to 188. The value of \<^verbatim>\<open>get_prep_value\<close> and
  of \<^verbatim>\<open>to_python\<close> is \<^verbatim>\<open>None\<close> or a dictionary; both are false when empty.
\<close>

definition ReferencesField_get_prep_value ::
  "(entity \<Rightarrow> string) \<Rightarrow> (string \<times> entity option) list option \<Rightarrow> (string \<times> string) list" where
  "ReferencesField_get_prep_value identify val =
     (case val of
        None \<Rightarrow> []
      | Some refs \<Rightarrow> if refs \<noteq> [] then serialize_references identify refs else [])"

definition ReferencesField_to_python ::
  "(string \<times> string) list option \<Rightarrow> (string \<times> lazy_reference) list" where
  "ReferencesField_to_python val =
     (case val of
        None \<Rightarrow> []
      | Some refs \<Rightarrow> if refs \<noteq> [] then unserialize_references refs else [])"

definition ReferencesField_value_to_python ::
  "(string \<Rightarrow> entity option) \<Rightarrow> string \<Rightarrow> entity option" where
  "ReferencesField_value_to_python fetch val =
     (if val \<noteq> [] then acquire_reference fetch val else None)"

text \<open>
  Modelled from the spec: the first read of a lazy reference, which is not among the sources.
  It converts the stored identifier as the field converts a single stored value.
\<close>

fun resolve :: "(string \<Rightarrow> entity option) \<Rightarrow> lazy_reference \<Rightarrow> entity option" where
  "resolve fetch (LazyReference s) = ReferencesField_value_to_python fetch s"

section \<open>A framework for the examples\<close>

text \<open>
  An instance of the framework's side on which the examples run: a column is its own SQL and
  has no parameters, the placeholder is the right-hand side SQL it is given, every field knows
  the comparisons \<^verbatim>\<open>exact\<close> and \<^verbatim>\<open>gt\<close>, and an inner lookup compares its left-hand side with
  the value \<open>v\<close> of the query, which it binds.
\<close>

definition example_get_lookup :: "field_class \<Rightarrow> string list \<Rightarrow> (field_class \<times> string) option" where
  "example_get_lookup f names =
     (if names = [''exact''] then Some (f, ''='')
      else if names = [''gt''] then Some (f, ''>'')
      else None)"

definition example_framework :: "pyval \<Rightarrow> (field_class \<times> string) framework" where
  "example_framework v =
     \<lparr>Lookup_common_normalize = (\<lambda>params. Inr (''%s'', params)),
      Lookup_prepare_lhs = (\<lambda>lvalue. Inr (lvalue, PList [])),
      Lookup_rhs_format = (\<lambda>rhs_sql. rhs_sql),
      Lookup_as_sql = (\<lambda>lvalue. Inr (lvalue, PList [])),
      inner_common_normalize = (\<lambda>n params f. Inr (''%s'', params)),
      inner_prepare_lhs = (\<lambda>n lvalue lhs_only. Inr (lvalue, [])),
      inner_as_constraint_sql =
        (\<lambda>n lhs_clause rhs_sql params. Inr (lhs_clause @ '' '' @ snd n @ '' '' @ rhs_sql, params)),
      inner_as_sql = (\<lambda>n lvalue. Inr (lvalue @ '' '' @ snd n @ '' %s'', [v]))\<rparr>"


text \<open>The calendar date as \<^verbatim>\<open>%Y-%m-%d\<close> writes it, for four-digit years.\<close>

definition digit :: "nat \<Rightarrow> char" where
  "digit n = char_of (48 + n mod 10)"

definition example_strftime :: "date \<Rightarrow> string" where
  "example_strftime d =
     [digit (year d div 1000), digit (year d div 100), digit (year d div 10), digit (year d)]
     @ ''-'' @ [digit (month d div 10), digit (month d)]
     @ ''-'' @ [digit (day d div 10), digit (day d)]"

text \<open>
  For the examples on references: the identifier \<^verbatim>\<open><table>:<primary_key>\<close>, and a
  record-lookup provider over a table of the records that exist, keyed by identifier.
\<close>

definition example_identify :: "entity \<Rightarrow> string" where
  "example_identify e = table_name e @ '':'' @ primary_key e"

definition example_fetch :: "entity list \<Rightarrow> string \<Rightarrow> entity option" where
  "example_fetch records s = find (\<lambda>e. example_identify e = s) records"

section \<open>Helper facts\<close>

lemma py_format_nested_not_supported:
  "py_format nested_not_supported [ltype] =
     Inr (''The hstore lookup '' @ [CHR 0x22] @ ltype @ [CHR 0x22] @
          '' does not support nested lookups'')"
  by (simp add: nested_not_supported_def prepend_def)

lemma resolve_nested_not_too_deep:
  "resolve_nested get_lookup ltype cst rfield toks \<noteq> Inl (LookupError nesting_too_deep)"
  by (simp add: resolve_nested_def unknown_nested_def nesting_too_deep_def
      split: option.splits)

lemma py_format_binary:
  "py_format ''%s = %s'' [a, b] = Inr (a @ '' = '' @ b)"
  "py_format ''%s @> %s'' [a, b] = Inr (a @ '' @> '' @ b)"
  "py_format ''%s ?& %s'' [a, b] = Inr (a @ '' ?& '' @ b)"
  "py_format ''%s ? %s'' [a, b] = Inr (a @ '' ? '' @ b)"
  by (simp_all add: prepend_def)

lemma py_format_extraction:
  "py_format ''%s -> %%s'' [a] = Inr (a @ '' -> %s'')"
  by (simp add: prepend_def)

lemma py_format_cast:
  "py_format ''%s'' [a] = Inr a"
  "py_format ''(%s)::INTEGER'' [a] = Inr (''('' @ a @ '')::INTEGER'')"
  "py_format ''(%s)::DATE'' [a] = Inr (''('' @ a @ '')::DATE'')"
  by (simp_all add: prepend_def)




text \<open>What the constructor leaves on a keyed lookup, and on a top-level one.\<close>

lemma init_keyed:
  assumes "ltype \<noteq> ''exact''" and "ltype \<noteq> ''contains''"
    and "HStoreLookup_init get_lookup ltype (Some toks) = Inr self"
  shows "lookup_type self = ltype \<and> (\<exists>n. nested_lookup self = Some n) \<and>
         cast self = Some (if toks \<noteq> [] \<and> hd toks = ''asint'' then ''(%s)::INTEGER''
                           else if toks \<noteq> [] \<and> hd toks = ''asdate'' then ''(%s)::DATE''
                           else ''%s'')"
  using assms
  by (cases toks)
     (auto simp add: HStoreLookup_init_def resolve_nested_def Let_def
           split: if_splits option.splits)


text \<open>
  The left-hand side that a keyed lookup hands to its inner lookup, with both format strings
  evaluated.
\<close>

lemma prepare_lhs_keyed:
  assumes "lookup_type self = ltype" and "nested_lookup self = Some n"
    and "cast self = Some (if toks \<noteq> [] \<and> hd toks = ''asint'' then ''(%s)::INTEGER''
                           else if toks \<noteq> [] \<and> hd toks = ''asdate'' then ''(%s)::DATE''
                           else ''%s'')"
    and "Lookup_prepare_lhs fw lvalue = Inr (lhs_clause, params)"
  shows "prepare_lhs fw self lvalue lhs_only =
       andThen (insert_lookup_type ltype params) (\<lambda>params1.
       andThen (inner_prepare_lhs fw n
          (if toks \<noteq> [] \<and> hd toks = ''asint'' then ''('' @ lhs_clause @ '' -> %s)::INTEGER''
           else if toks \<noteq> [] \<and> hd toks = ''asdate'' then ''('' @ lhs_clause @ '' -> %s)::DATE''
           else lhs_clause @ '' -> %s'') lhs_only) (\<lambda>(lhs2, ip).
       andThen (extend_params params1 ip) (\<lambda>params2. Inr (lhs2, params2))))"
  using assms
  by (simp add: prepare_lhs_def andThen_def py_format_extraction py_format_cast
      del: py_format.simps cong: sum.case_cong prod.case_cong)

lemma as_sql_keyed:
  assumes "lookup_type self = ltype" and "nested_lookup self = Some n"
    and "cast self = Some (if toks \<noteq> [] \<and> hd toks = ''asint'' then ''(%s)::INTEGER''
                           else if toks \<noteq> [] \<and> hd toks = ''asdate'' then ''(%s)::DATE''
                           else ''%s'')"
    and "Lookup_prepare_lhs fw lvalue = Inr (lhs_clause, params)"
  shows "as_sql fw self lvalue =
       andThen (insert_lookup_type ltype params) (\<lambda>params1.
       andThen (inner_prepare_lhs fw n
          (if toks \<noteq> [] \<and> hd toks = ''asint'' then ''('' @ lhs_clause @ '' -> %s)::INTEGER''
           else if toks \<noteq> [] \<and> hd toks = ''asdate'' then ''('' @ lhs_clause @ '' -> %s)::DATE''
           else lhs_clause @ '' -> %s'') True) (\<lambda>(lhs2, ip).
       andThen (extend_params params1 ip) (\<lambda>params2.
       andThen (inner_as_sql fw n lhs2) (\<lambda>(inner_sql, ap).
       andThen (extend_params params2 ap) (\<lambda>params3. Inr (inner_sql, params3))))))"
  unfolding as_sql_def prepare_lhs_keyed [OF assms]
  by (simp add: andThen_def assms(2) split: sum.splits prod.splits)





text \<open>An assignment under a key that occurs once replaces the value where it stands.\<close>

lemma update_middle:
  "k \<notin> fst ` set ys \<Longrightarrow> AList.update k v (ys @ (k, w) # zs) = ys @ (k, v) # zs"
  by (induction ys) auto

lemma prep_items_suffix:
  "distinct (map fst (ys @ xs)) \<Longrightarrow>
   prep_items strftime xs
     (map (\<lambda>(k, v). (k, case v of PDate d \<Rightarrow> PStr (strftime d) | _ \<Rightarrow> v)) ys @ xs) =
   map (\<lambda>(k, v). (k, case v of PDate d \<Rightarrow> PStr (strftime d) | _ \<Rightarrow> v)) (ys @ xs)"
proof (induction xs arbitrary: ys)
  case Nil
  then show ?case by simp
next
  case (Cons x xs)
  obtain k v where x: "x = (k, v)" by (cases x)
  let ?f = "\<lambda>(k, v). (k, case v of PDate d \<Rightarrow> PStr (strftime d) | _ \<Rightarrow> v)"
  from Cons.prems x have k: "k \<notin> fst ` set (map ?f ys)" by (auto simp: image_iff)
  from Cons.prems x have d: "distinct (map fst ((ys @ [(k, v)]) @ xs))" by simp
  have "(case v of PDate d \<Rightarrow> AList.update k (PStr (strftime d)) (map ?f ys @ (k, v) # xs)
         | _ \<Rightarrow> map ?f ys @ (k, v) # xs)
      = map ?f (ys @ [(k, v)]) @ xs"
    using update_middle [OF k] by (cases v) simp_all
  then show ?case using Cons.IH [OF d] x by simp
qed

lemma get_prep_value_dict:
  "wf_dict d \<Longrightarrow>
   get_prep_value strftime (PDict d) =
     PDict (map (\<lambda>(k, v). (k, case v of PDate dt \<Rightarrow> PStr (strftime dt) | _ \<Rightarrow> v)) d)"
  using prep_items_suffix [of "[]" d strftime]
  by (simp add: get_prep_value_def wf_dict_def)

section \<open>Claims about construction\<close>

text \<open>
  Claim C2. For a keyed lookup (a lookup type other than \<^verbatim>\<open>exact\<close> and \<^verbatim>\<open>contains\<close>) the
  constructor raises the \<^verbatim>\<open>LookupError\<close> "Lookup nesting too deep for hstore field!"
  exactly when the list of nested lookup names has more than two names, or has exactly two and
  the first is neither \<^verbatim>\<open>asint\<close> nor \<^verbatim>\<open>asdate\<close>; in every other case it raises no such error.
\<close>

theorem nesting_too_deep_iff:
  assumes "ltype \<noteq> ''exact''" and "ltype \<noteq> ''contains''"
  shows "HStoreLookup_init get_lookup ltype (Some toks) = Inl (LookupError nesting_too_deep)
         \<longleftrightarrow> (length toks > 2 \<or>
              (length toks = 2 \<and> hd toks \<noteq> ''asint'' \<and> hd toks \<noteq> ''asdate''))"
proof (cases toks)
  case Nil
  with assms show ?thesis
    by (simp add: HStoreLookup_init_def resolve_nested_not_too_deep)
next
  case (Cons t ts)
  with assms show ?thesis
    by (auto simp add: HStoreLookup_init_def resolve_nested_not_too_deep Let_def)
qed

theorem nesting_too_deep_iff_witness:
  "HStoreLookup_init (\<lambda>f ns. Some ns) ''mykey'' (Some [''asint'', ''gt'', ''extra''])
     = (Inl (LookupError nesting_too_deep) :: error + (string list) HStoreLookup)
   \<and> HStoreLookup_init (\<lambda>f ns. Some ns) ''mykey'' (Some [''foo'', ''bar''])
     = (Inl (LookupError nesting_too_deep) :: error + (string list) HStoreLookup)
   \<and> HStoreLookup_init (\<lambda>f ns. Some ns) ''mykey'' (Some [''asdate'', ''gt''])
     \<noteq> (Inl (LookupError nesting_too_deep) :: error + (string list) HStoreLookup)"
  using nesting_too_deep_iff [of "''mykey''" "\<lambda>f ns. Some ns" "[''asint'', ''gt'', ''extra'']"]
    nesting_too_deep_iff [of "''mykey''" "\<lambda>f ns. Some ns" "[''foo'', ''bar'']"]
    nesting_too_deep_iff [of "''mykey''" "\<lambda>f ns. Some ns" "[''asdate'', ''gt'']"]
  by simp

text \<open>
  Claim C4. For a keyed lookup with the nested names \<^verbatim>\<open>['asint']\<close> the constructor succeeds
  (given that the registry of \<^verbatim>\<open>IntegerField\<close> knows \<^verbatim>\<open>exact\<close>): the cast template is
  \<^verbatim>\<open>(%s)::INTEGER\<close> (cast mode TO_INTEGER), the field of the extracted value is an
  \<^verbatim>\<open>IntegerField\<close>, and the inner lookup is what the registry of \<^verbatim>\<open>IntegerField\<close> returns for
  the default comparison \<^verbatim>\<open>['exact']\<close>, no second name being present.
\<close>

theorem asint_defaults_to_exact:
  assumes "ltype \<noteq> ''exact''" and "ltype \<noteq> ''contains''"
    and "get_lookup IntegerField [''exact''] = Some n"
  shows "HStoreLookup_init get_lookup ltype (Some [''asint'']) =
           Inr \<lparr>lookup_type = ltype, retval_field = Some IntegerField,
                nested_lookup = Some n, cast = Some ''(%s)::INTEGER''\<rparr>"
  using assms by (simp add: HStoreLookup_init_def resolve_nested_def)

theorem asint_defaults_to_exact_witness:
  "HStoreLookup_init (\<lambda>f ns. Some (f, ns)) ''mykey'' (Some [''asint'']) =
     Inr \<lparr>lookup_type = ''mykey'', retval_field = Some IntegerField,
          nested_lookup = Some (IntegerField, [''exact'']), cast = Some ''(%s)::INTEGER''\<rparr>"
  using asint_defaults_to_exact
    [of "''mykey''" "\<lambda>f ns. Some (f, ns)" "(IntegerField, [''exact''])"]
  by simp

text \<open>
  Claim C7. For the lookup types \<^verbatim>\<open>exact\<close> and \<^verbatim>\<open>contains\<close> the constructor raises
  \<^verbatim>\<open>LookupError\<close> (the lookup does not support nested lookups) for every non-empty list of
  nested names; for the empty list it succeeds, with no cast template set (cast mode NONE), no
  field for an extracted value and no inner lookup.
\<close>

theorem toplevel_rejects_nesting:
  assumes "ltype = ''exact'' \<or> ltype = ''contains''"
  shows "(toks \<noteq> [] \<longrightarrow>
            HStoreLookup_init get_lookup ltype (Some toks) =
              Inl (LookupError (''The hstore lookup '' @ [CHR 0x22] @ ltype @ [CHR 0x22] @
                                '' does not support nested lookups'')))
         \<and> HStoreLookup_init get_lookup ltype (Some []) =
              Inr \<lparr>lookup_type = ltype, retval_field = None, nested_lookup = None,
                   cast = None\<rparr>"
  using assms
  by (auto simp add: HStoreLookup_init_def py_format_nested_not_supported andThen_def)

theorem toplevel_rejects_nesting_witness:
  "HStoreLookup_init (\<lambda>f ns. Some ns) ''contains'' (Some [''gt'']) =
     (Inl (LookupError (''The hstore lookup '' @ [CHR 0x22] @ ''contains'' @ [CHR 0x22] @
                        '' does not support nested lookups''))
        :: error + (string list) HStoreLookup)
   \<and> HStoreLookup_init (\<lambda>f ns. Some ns) ''contains'' (Some []) =
     (Inr \<lparr>lookup_type = ''contains'', retval_field = None, nested_lookup = None,
          cast = None\<rparr> :: error + (string list) HStoreLookup)"
  using toplevel_rejects_nesting [of "''contains''" "[''gt'']" "\<lambda>f ns. Some ns"]
  by simp

section \<open>Claims about rendering\<close>

text \<open>
  Claim C1, at the input where the code departs from it. A top-level \<^verbatim>\<open>contains\<close> with the
  empty list as its value does not raise \<^verbatim>\<open>ValueError\<close>: the test on line 79 looks at the
  parameter list, which holds the value and so is never empty, and the lookup renders as the
  has-all-keys operator with the empty list bound.
\<close>

theorem contains_empty_sequence_accepted:
  "as_constraint_sql (example_framework (PList []))
     \<lparr>lookup_type = ''contains'', retval_field = None, nested_lookup = None, cast = None\<rparr>
     ''col'' ''%s'' [PList []]
   = Inr (''col ?& %s'', [PList []])"
  by (simp add: as_constraint_sql_def example_framework_def andThen_def py_format_binary
      del: py_format.simps)

text \<open>
  Every list or tuple, empty or not, renders this way: the part of claim C1 that the code
  keeps.
\<close>

lemma contains_sequence:
  assumes "lookup_type self = ''contains''" and "is_list_or_tuple v"
  shows "as_constraint_sql fw self lhs_clause rhs_sql [v] =
           Inr (lhs_clause @ '' ?& '' @ Lookup_rhs_format fw rhs_sql, [v])"
  using assms
  by (cases v)
     (simp_all add: as_constraint_sql_def py_format_binary andThen_def del: py_format.simps)

text \<open>
  Claim C6. A top-level \<^verbatim>\<open>exact\<close> raises \<^verbatim>\<open>ValueError\<close> if and only if the value, the one
  element of the parameter list, is not a dictionary; for a dictionary it returns the SQL
  \<^verbatim>\<open><lhs> = <placeholder>\<close> and the parameter list it was given, which holds the dictionary
  and nothing else.
\<close>

theorem exact_requires_mapping:
  assumes "lookup_type self = ''exact''"
  shows "((\<exists>m. as_constraint_sql fw self lhs_clause rhs_sql [v] = Inl (ValueError m))
            \<longleftrightarrow> \<not> is_dict v)
         \<and> (is_dict v \<longrightarrow>
              as_constraint_sql fw self lhs_clause rhs_sql [v] =
                Inr (lhs_clause @ '' = '' @ Lookup_rhs_format fw rhs_sql, [v]))"
  using assms
  by (simp add: as_constraint_sql_def py_format_binary andThen_def del: py_format.simps)

theorem exact_requires_mapping_witness:
  "as_constraint_sql (example_framework PNone)
     \<lparr>lookup_type = ''exact'', retval_field = None, nested_lookup = None, cast = None\<rparr>
     ''col'' ''%s'' [PDict [(''a'', PStr ''1'')]]
     = Inr (''col = %s'', [PDict [(''a'', PStr ''1'')]])
   \<and> (\<exists>m. as_constraint_sql (example_framework PNone)
     \<lparr>lookup_type = ''exact'', retval_field = None, nested_lookup = None, cast = None\<rparr>
     ''col'' ''%s'' [PInt 42] = Inl (ValueError m))"
  using exact_requires_mapping
      [of "\<lparr>lookup_type = ''exact'', retval_field = None, nested_lookup = None, cast = None\<rparr>"
          "example_framework PNone" "''col''" "''%s''" "PDict [(''a'', PStr ''1'')]"]
    exact_requires_mapping
      [of "\<lparr>lookup_type = ''exact'', retval_field = None, nested_lookup = None, cast = None\<rparr>"
          "example_framework PNone" "''col''" "''%s''" "PInt 42"]
  by (simp add: example_framework_def)

text \<open>
  Claim C5. For a keyed lookup, rendering hands to the inner lookup the left-hand side
  \<^verbatim>\<open>cast % (lhs + ' -> %s')\<close>, where the cast template is \<^verbatim>\<open>(%s)::INTEGER\<close> after \<^verbatim>\<open>asint\<close>,
  \<^verbatim>\<open>(%s)::DATE\<close> after \<^verbatim>\<open>asdate\<close> and \<^verbatim>\<open>%s\<close> otherwise; the SQL returned is the inner lookup's
  rendering of that expression, and the parameters start with the lookup type, the hstore key.
  The example of the claim, \<^verbatim>\<open>asint\<close> on the key \<^verbatim>\<open>mykey\<close> of the column \<^verbatim>\<open>col\<close> with the value
  5, is the witness.
\<close>

theorem keyed_lhs_extraction:
  assumes "ltype \<noteq> ''exact''" and "ltype \<noteq> ''contains''"
    and "HStoreLookup_init get_lookup ltype (Some toks) = Inr self"
    and "Lookup_prepare_lhs fw lvalue = Inr (lhs_clause, params)"
  shows "\<exists>n. nested_lookup self = Some n \<and>
     cast self = Some (if toks \<noteq> [] \<and> hd toks = ''asint'' then ''(%s)::INTEGER''
                       else if toks \<noteq> [] \<and> hd toks = ''asdate'' then ''(%s)::DATE''
                       else ''%s'') \<and>
     as_sql fw self lvalue =
       andThen (insert_lookup_type ltype params) (\<lambda>params1.
       andThen (inner_prepare_lhs fw n
          (if toks \<noteq> [] \<and> hd toks = ''asint'' then ''('' @ lhs_clause @ '' -> %s)::INTEGER''
           else if toks \<noteq> [] \<and> hd toks = ''asdate'' then ''('' @ lhs_clause @ '' -> %s)::DATE''
           else lhs_clause @ '' -> %s'') True) (\<lambda>(lhs2, ip).
       andThen (extend_params params1 ip) (\<lambda>params2.
       andThen (inner_as_sql fw n lhs2) (\<lambda>(inner_sql, ap).
       andThen (extend_params params2 ap) (\<lambda>params3. Inr (inner_sql, params3))))))"
proof -
  from init_keyed [OF assms(1,2,3)] obtain n where
    lt: "lookup_type self = ltype" and n: "nested_lookup self = Some n" and
    c: "cast self = Some (if toks \<noteq> [] \<and> hd toks = ''asint'' then ''(%s)::INTEGER''
                          else if toks \<noteq> [] \<and> hd toks = ''asdate'' then ''(%s)::DATE''
                          else ''%s'')"
    by blast
  from n c as_sql_keyed [OF lt n c assms(4)] show ?thesis by blast
qed

theorem keyed_lhs_extraction_witness:
  "HStoreLookup_init example_get_lookup ''mykey'' (Some [''asint'']) =
     Inr \<lparr>lookup_type = ''mykey'', retval_field = Some IntegerField,
          nested_lookup = Some (IntegerField, ''=''), cast = Some ''(%s)::INTEGER''\<rparr>
   \<and> as_sql (example_framework (PInt 5))
       \<lparr>lookup_type = ''mykey'', retval_field = Some IntegerField,
        nested_lookup = Some (IntegerField, ''=''), cast = Some ''(%s)::INTEGER''\<rparr> ''col'' =
     Inr (''(col -> %s)::INTEGER = %s'', PList [PStr ''mykey'', PInt 5])"
proof -
  have h: "HStoreLookup_init example_get_lookup ''mykey'' (Some [''asint'']) =
        Inr \<lparr>lookup_type = ''mykey'', retval_field = Some IntegerField,
             nested_lookup = Some (IntegerField, ''=''), cast = Some ''(%s)::INTEGER''\<rparr>"
    by (simp add: HStoreLookup_init_def resolve_nested_def example_get_lookup_def)
  have p: "Lookup_prepare_lhs (example_framework (PInt 5)) ''col'' = Inr (''col'', PList [])"
    by (simp add: example_framework_def)
  from keyed_lhs_extraction [OF _ _ h p] h show ?thesis
    by (simp add: example_framework_def andThen_def insert_lookup_type_def extend_params_def)
qed




section \<open>Claims about the fields\<close>

text \<open>
  Claim C8 says that the prepared dictionary holds only text. It does not: only dates are
  converted, and a dictionary with an integer value is prepared to itself, the integer still
  an integer.
\<close>

theorem prep_value_keeps_integer:
  "get_prep_value example_strftime (PDict [(''a'', PInt 5)]) = PDict [(''a'', PInt 5)]
   \<and> \<not> is_basestring (PInt 5)"
  by (simp add: get_prep_value_def)

text \<open>
  Claim C8, as the code has it. Value preparation for storage turns every date of a
  dictionary into its text form and leaves every other value as it is; so the prepared
  dictionary holds only text when every value of the dictionary is text or a date.
\<close>

theorem prep_value_converts_dates:
  assumes "wf_dict d"
  shows "\<exists>d'. get_prep_value strftime (PDict d) = PDict d'
           \<and> d' = map (\<lambda>(k, v). (k, case v of PDate dt \<Rightarrow> PStr (strftime dt) | _ \<Rightarrow> v)) d
           \<and> ((\<forall>(k, v) \<in> set d. is_basestring v \<or> is_date v)
                \<longrightarrow> (\<forall>(k, v) \<in> set d'. is_basestring v))"
proof -
  let ?d' = "map (\<lambda>(k, v). (k, case v of PDate dt \<Rightarrow> PStr (strftime dt) | _ \<Rightarrow> v)) d"
  have "(\<forall>(k, v) \<in> set d. is_basestring v \<or> is_date v)
          \<longrightarrow> (\<forall>(k, v) \<in> set ?d'. is_basestring v)"
    by (auto split: pyval.splits)
  with get_prep_value_dict [OF assms] show ?thesis by blast
qed

theorem prep_value_converts_dates_witness:
  "wf_dict [(''a'', PStr ''1''), (''since'', PDate \<lparr>year = 2013, month = 11, day = 6\<rparr>)]
   \<and> get_prep_value example_strftime
       (PDict [(''a'', PStr ''1''), (''since'', PDate \<lparr>year = 2013, month = 11, day = 6\<rparr>)])
     = PDict [(''a'', PStr ''1''), (''since'', PStr ''2013-11-06'')]"
proof -
  have w: "wf_dict [(''a'', PStr ''1''), (''since'', PDate \<lparr>year = 2013, month = 11, day = 6\<rparr>)]"
    by (simp add: wf_dict_def)
  have "example_strftime \<lparr>year = 2013, month = 11, day = 6\<rparr> = ''2013-11-06''"
    by code_simp
  with prep_value_converts_dates [OF w, of example_strftime] w show ?thesis
    by simp
qed

text \<open>
  Claim C10. \<^verbatim>\<open>DictionaryField.to_python\<close> returns the empty dictionary for every false
  value, \<^verbatim>\<open>None\<close> among them, and the value itself for every true one; it never returns
  \<^verbatim>\<open>None\<close>.
\<close>

theorem to_python_never_None:
  "(\<not> truthy v \<longrightarrow> DictionaryField_to_python v = PDict [])
   \<and> (truthy v \<longrightarrow> DictionaryField_to_python v = v)
   \<and> DictionaryField_to_python v \<noteq> PNone"
  by (cases v) (simp_all add: DictionaryField_to_python_def)

theorem to_python_never_None_witness:
  "\<not> truthy PNone \<and> DictionaryField_to_python PNone = PDict []
   \<and> truthy (PDict [(''a'', PStr ''1'')])
   \<and> DictionaryField_to_python (PDict [(''a'', PStr ''1'')]) = PDict [(''a'', PStr ''1'')]"
  using to_python_never_None [of PNone] to_python_never_None [of "PDict [(''a'', PStr ''1'')]"]
  by simp

text \<open>
  Claim C9. For a dictionary of references whose entities have stable identifiers (the
  identifier of each is not the empty string that stands for \<^verbatim>\<open>None\<close>, and the provider
  finds the entity under it), reading every value of the deserialized serialization gives the
  dictionary back. A reference whose identifier the provider no longer finds reads as
  \<^verbatim>\<open>None\<close>.
\<close>

theorem references_roundtrip:
  assumes "\<forall>(k, v) \<in> set refs. \<forall>e. v = Some e \<longrightarrow>
             identify e \<noteq> [] \<and> fetch (identify e) = Some e"
  shows "map (\<lambda>(k, r). (k, resolve fetch r))
           (ReferencesField_to_python
              (Some (ReferencesField_get_prep_value identify (Some refs)))) = refs
         \<and> (fetch s = None \<longrightarrow> resolve fetch (LazyReference s) = None)"
proof -
  have "map (\<lambda>(k, r). (k, resolve fetch r))
          (unserialize_references (serialize_references identify refs)) = refs"
    using assms
    by (induction refs)
       (auto simp add: unserialize_references_def serialize_references_def
          ReferencesField_value_to_python_def acquire_reference_def split: option.splits)
  moreover have "fetch s = None \<longrightarrow> resolve fetch (LazyReference s) = None"
    by (simp add: ReferencesField_value_to_python_def acquire_reference_def)
  ultimately show ?thesis
    by (cases refs)
       (simp_all add: ReferencesField_to_python_def ReferencesField_get_prep_value_def
          serialize_references_def unserialize_references_def)
qed

theorem references_roundtrip_witness:
  "map (\<lambda>(k, r). (k, resolve (example_fetch [\<lparr>table_name = ''app.Author'', primary_key = ''7''\<rparr>]) r))
     (ReferencesField_to_python
        (Some (ReferencesField_get_prep_value example_identify
           (Some [(''a'', Some \<lparr>table_name = ''app.Author'', primary_key = ''7''\<rparr>),
                  (''b'', None)]))))
     = [(''a'', Some \<lparr>table_name = ''app.Author'', primary_key = ''7''\<rparr>), (''b'', None)]
   \<and> resolve (example_fetch []) (LazyReference ''app.Author:7'') = None"
  using references_roundtrip
    [of "[(''a'', Some \<lparr>table_name = ''app.Author'', primary_key = ''7''\<rparr>), (''b'', None)]"
        example_identify
        "example_fetch [\<lparr>table_name = ''app.Author'', primary_key = ''7''\<rparr>]"
        "''app.Author:7''"]
    references_roundtrip [of "[]" example_identify "example_fetch []" "''app.Author:7''"]
  by (simp add: example_fetch_def example_identify_def)

end
